theory Spec2Isabelle
  imports Complex_Main "HOL-Library.Monad_Syntax"
begin

section \<open>HeartPi: risk scoring and simulated sensor readings\<close>

text \<open>
  A shallow embedding of the scoring core of HeartPi: the class \<open>FamilyHealth\<close>
  (FamilyHealth.h, FamilyHealth.cpp), the class \<open>RandomNumberGenerator\<close>
  (RandomNumberGenerator.h, RandomNumberGenerator.cpp) and the function
  \<open>assessHeartHealth\<close> (Calculations.cpp).

  Conventions of the model.
  \<^item> A C++ \<open>int\<close> is an \<open>int\<close>: the code only compares the questionnaire fields with
    constants and adds constants below 4 to a running total that starts at 0, so no
    arithmetic can overflow.
  \<^item> A C++ \<open>double\<close> is a \<open>real\<close>: the code never computes with the readings, it
    only passes literal bounds to the distribution and stores what comes back.
  \<^item> A call that does not return normally is \<open>None\<close>: an unchecked \<open>operator[]\<close>
    outside the vector (undefined behaviour), or the standard library's distribution
    failing.
\<close>

subsection \<open>std::vector access\<close>

text \<open>\<open>v[i]\<close> read: defined only for \<open>0 \<le> i < v.size()\<close>.\<close>

definition vector_at :: "'a list \<Rightarrow> int \<Rightarrow> 'a option" where
  "vector_at v i = (if 0 \<le> i \<and> i < int (length v) then Some (v ! nat i) else None)"

text \<open>\<open>v[i] = x\<close> write: defined only for \<open>0 \<le> i < v.size()\<close>.\<close>

definition vector_assign :: "'a list \<Rightarrow> int \<Rightarrow> 'a \<Rightarrow> 'a list option" where
  "vector_assign v i x = (if 0 \<le> i \<and> i < int (length v) then Some (v[nat i := x]) else None)"

subsection \<open>FamilyHealth\<close>

record FamilyHealth =
  ageGroup :: int
  gender :: bool
  sleepHours :: int
  exerciseFrequency :: int
  dietType :: int
  isSmoker :: bool
  familyDiseases :: "string list"
  familyDiseasesHistory :: "bool list"

text \<open>
  The constructor \<open>FamilyHealth::FamilyHealth()\<close> builds both vectors with four entries
  and names the four diseases. It does not initialise the six scalar members; their
  indeterminate initial values are the arguments of the model.
\<close>

definition FamilyHealth_ctor :: "int \<Rightarrow> bool \<Rightarrow> int \<Rightarrow> int \<Rightarrow> int \<Rightarrow> bool \<Rightarrow> FamilyHealth" where
  "FamilyHealth_ctor ag g sh ef dt sm =
     \<lparr> ageGroup = ag, gender = g, sleepHours = sh, exerciseFrequency = ef,
       dietType = dt, isSmoker = sm,
       familyDiseases =
         [''Heart attack or coronary artery disease'', ''Diabetes (Type 2)'',
          ''High cholesterol'', ''High blood pressure''],
       familyDiseasesHistory = replicate 4 False \<rparr>"

definition getAgeGroup :: "FamilyHealth \<Rightarrow> int" where
  "getAgeGroup this = ageGroup this"

definition getGender :: "FamilyHealth \<Rightarrow> bool" where
  "getGender this = gender this"

definition getSleepHours :: "FamilyHealth \<Rightarrow> int" where
  "getSleepHours this = sleepHours this"

definition getExerciseFrequency :: "FamilyHealth \<Rightarrow> int" where
  "getExerciseFrequency this = exerciseFrequency this"

definition getDietType :: "FamilyHealth \<Rightarrow> int" where
  "getDietType this = dietType this"

definition getIsSmoker :: "FamilyHealth \<Rightarrow> bool" where
  "getIsSmoker this = isSmoker this"

definition getFamilyHistoryCount :: "FamilyHealth \<Rightarrow> int" where
  "getFamilyHistoryCount this = int (length (familyDiseasesHistory this))"

definition getFamilyDiseases :: "FamilyHealth \<Rightarrow> string list" where
  "getFamilyDiseases this = familyDiseases this"

definition hasFamilyDisease :: "FamilyHealth \<Rightarrow> int \<Rightarrow> bool option" where
  "hasFamilyDisease this diseaseIndex =
     (if diseaseIndex < 0 \<or> diseaseIndex \<ge> getFamilyHistoryCount this then Some False
      else vector_at (familyDiseasesHistory this) diseaseIndex)"

definition setAgeGroup :: "FamilyHealth \<Rightarrow> int \<Rightarrow> FamilyHealth" where
  "setAgeGroup this v = this\<lparr>ageGroup := v\<rparr>"

definition setGender :: "FamilyHealth \<Rightarrow> bool \<Rightarrow> FamilyHealth" where
  "setGender this v = this\<lparr>gender := v\<rparr>"

definition setSleepHours :: "FamilyHealth \<Rightarrow> int \<Rightarrow> FamilyHealth" where
  "setSleepHours this v = this\<lparr>sleepHours := v\<rparr>"

definition setExerciseFrequency :: "FamilyHealth \<Rightarrow> int \<Rightarrow> FamilyHealth" where
  "setExerciseFrequency this v = this\<lparr>exerciseFrequency := v\<rparr>"

definition setDietType :: "FamilyHealth \<Rightarrow> int \<Rightarrow> FamilyHealth" where
  "setDietType this v = this\<lparr>dietType := v\<rparr>"

definition setIsSmoker :: "FamilyHealth \<Rightarrow> bool \<Rightarrow> FamilyHealth" where
  "setIsSmoker this v = this\<lparr>isSmoker := v\<rparr>"

definition setFamilyDiseaseHistory :: "FamilyHealth \<Rightarrow> int \<Rightarrow> bool \<Rightarrow> FamilyHealth option" where
  "setFamilyDiseaseHistory this index v =
     (if index \<ge> 0 \<and> index < int (length (familyDiseasesHistory this))
      then do {
        h \<leftarrow> vector_assign (familyDiseasesHistory this) index v;
        Some (this\<lparr>familyDiseasesHistory := h\<rparr>)
      }
      else Some this)"

text \<open>
  The size of the history vector: the constructor makes it 4 and no member function
  resizes it, so every object of the program satisfies this invariant.
\<close>

definition FamilyHealth_inv :: "FamilyHealth \<Rightarrow> bool" where
  "FamilyHealth_inv this = (length (familyDiseasesHistory this) = 4)"

subsection \<open>RandomNumberGenerator\<close>

text \<open>
  \<open>std::uniform_real_distribution<double>\<close> belongs to the standard library and is a
  parameter of the model: called with the bounds it was constructed with and the
  engine's state \<open>'g\<close>, it yields a number and the engine's next state, or fails
  (\<open>None\<close>). A failure of the library at construction is represented at the draw.
\<close>

type_synonym 'g uniform_real_distribution = "real \<Rightarrow> real \<Rightarrow> 'g \<Rightarrow> (real \<times> 'g) option"

record 'g RandomNumberGenerator =
  rng :: 'g
  dist_bounds :: "real \<times> real"

text \<open>
  The constructor seeds the engine from \<open>std::random_device\<close>; the seeded engine state
  is the first argument of the model. The bounds go to the distribution as they are.
\<close>

definition RandomNumberGenerator_ctor :: "'g \<Rightarrow> real \<Rightarrow> real \<Rightarrow> 'g RandomNumberGenerator" where
  "RandomNumberGenerator_ctor seeded min_v max_v = \<lparr> rng = seeded, dist_bounds = (min_v, max_v) \<rparr>"

definition generate ::
  "'g uniform_real_distribution \<Rightarrow> 'g RandomNumberGenerator \<Rightarrow> (real \<times> 'g RandomNumberGenerator) option" where
  "generate U this = do {
     (x, g) \<leftarrow> U (fst (dist_bounds this)) (snd (dist_bounds this)) (rng this);
     Some (x, this\<lparr>rng := g\<rparr>)
   }"

text \<open>The contract of the distribution on ordered bounds: a value between them.\<close>

definition sampler_contract :: "'g uniform_real_distribution \<Rightarrow> bool" where
  "sampler_contract U = (\<forall>a b g. a \<le> b \<longrightarrow> (\<exists>x g'. U a b g = Some (x, g') \<and> a \<le> x \<and> x \<le> b))"

text \<open>
  What the usual library implementations compute: the affine image of a canonical draw
  \<open>u\<close> from the engine, with no check of the bounds. The engine's state is the draw.
\<close>

definition affine_distribution :: "real uniform_real_distribution" where
  "affine_distribution a b u = Some ((b - a) * u + a, u)"

text \<open>A distribution that returns the midpoint of its bounds and counts the draws.\<close>

definition midpoint_distribution :: "nat uniform_real_distribution" where
  "midpoint_distribution a b n = Some ((a + b) / 2, Suc n)"

subsection \<open>assessHeartHealth\<close>

text \<open>The seven blocks of the risk score, each as the amount it adds to \<open>riskScore\<close>.\<close>

definition ageScore :: "FamilyHealth \<Rightarrow> int" where
  "ageScore family =
     (if getAgeGroup family = 1 \<or> getAgeGroup family = 2 then 1
      else if getAgeGroup family = 3 \<or> getAgeGroup family = 4 then 2
      else 3)"

definition genderScore :: "FamilyHealth \<Rightarrow> int" where
  "genderScore family =
     (if \<not> getGender family
      then (if getAgeGroup family \<le> 3 then 1 else 3)
      else (if getAgeGroup family \<le> 3 then 2 else 3))"

definition sleepScore :: "FamilyHealth \<Rightarrow> int" where
  "sleepScore family =
     (if getSleepHours family = 1 \<or> getSleepHours family = 5 then 3
      else if getSleepHours family = 2 then 2
      else 1)"

definition exerciseScore :: "FamilyHealth \<Rightarrow> int" where
  "exerciseScore family =
     (if getExerciseFrequency family = 1 then 3
      else if getExerciseFrequency family = 2 then 2
      else 1)"

definition familyDiseaseScore :: "FamilyHealth \<Rightarrow> int option" where
  "familyDiseaseScore family = do {
     d0 \<leftarrow> hasFamilyDisease family 0;
     d1 \<leftarrow> hasFamilyDisease family 1;
     d2 \<leftarrow> hasFamilyDisease family 2;
     d3 \<leftarrow> hasFamilyDisease family 3;
     Some ((if d0 then 2 else 0) + (if d1 then 1 else 0)
         + (if d2 then 2 else 0) + (if d3 then 2 else 0))
   }"

definition dietScore :: "FamilyHealth \<Rightarrow> int" where
  "dietScore family =
     (let dt = getDietType family in
      if dt = 4 then 3
      else if dt = 1 \<or> dt = 2 \<or> dt = 3 \<or> dt = 6 then 1
      else if dt = 5 then 2
      else 0)"

definition smokingScore :: "FamilyHealth \<Rightarrow> int" where
  "smokingScore family = (if getIsSmoker family then 3 else 1)"

text \<open>Lines 46 to 108: the running total, in the order of the source.\<close>

definition riskScore :: "FamilyHealth \<Rightarrow> int option" where
  "riskScore family = do {
     fd \<leftarrow> familyDiseaseScore family;
     Some (0 + ageScore family + genderScore family + sleepScore family
             + exerciseScore family + fd + dietScore family + smokingScore family)
   }"

text \<open>
  \<open>RandomNumberGenerator(lo, hi).generate()\<close>: a temporary generator, one draw. The
  generator is seeded with the engine state \<open>seeded\<close>.
\<close>

definition draw :: "'g uniform_real_distribution \<Rightarrow> 'g \<Rightarrow> real \<Rightarrow> real \<Rightarrow> real option" where
  "draw U seeded lo hi = map_option fst (generate U (RandomNumberGenerator_ctor seeded lo hi))"

text \<open>
  Lines 114 to 135: the five readings. \<open>seeds i\<close> is the engine state that
  \<open>std::random_device\<close> gives the \<open>i\<close>-th generator constructed during the call.
\<close>

definition simulateSensorReadings ::
  "'g uniform_real_distribution \<Rightarrow> (nat \<Rightarrow> 'g) \<Rightarrow> int \<Rightarrow> (real \<times> real \<times> real \<times> real \<times> real) option" where
  "simulateSensorReadings U seeds score =
     (if score < 10 then do {
        heartRate \<leftarrow> draw U (seeds 0) 60 80;
        sysBP \<leftarrow> draw U (seeds 1) 110 120;
        diasBP \<leftarrow> draw U (seeds 2) 70 80;
        cholesterol \<leftarrow> draw U (seeds 3) 150 200;
        ecg \<leftarrow> draw U (seeds 4) 0.05 0.15;
        Some (heartRate, sysBP, diasBP, cholesterol, ecg)
      } else if score < 18 then do {
        heartRate \<leftarrow> draw U (seeds 0) 80 95;
        sysBP \<leftarrow> draw U (seeds 1) 120 135;
        diasBP \<leftarrow> draw U (seeds 2) 80 90;
        cholesterol \<leftarrow> draw U (seeds 3) 200 240;
        ecg \<leftarrow> draw U (seeds 4) 0.02 0.18;
        Some (heartRate, sysBP, diasBP, cholesterol, ecg)
      } else do {
        heartRate \<leftarrow> draw U (seeds 0) 95 120;
        sysBP \<leftarrow> draw U (seeds 1) 135 160;
        diasBP \<leftarrow> draw U (seeds 2) 90 110;
        cholesterol \<leftarrow> draw U (seeds 3) 240 300;
        ecg \<leftarrow> draw U (seeds 4) (- 0.1) 0.3;
        Some (heartRate, sysBP, diasBP, cholesterol, ecg)
      })"

text \<open>Lines 138 to 143: the returned message.\<close>

definition finalRiskAssessment :: "int \<Rightarrow> string" where
  "finalRiskAssessment score =
     (if score \<ge> 18 then ''High risk of heart disease.''
      else if score \<ge> 10 then ''Moderate risk of heart disease.''
      else ''Low risk of heart disease. You are healthy!'')"

text \<open>
  The outcome of a call: the returned string, the five output parameters, and the
  score written to \<open>std::cout\<close>.
\<close>

record Assessment =
  returned :: string
  heartRate :: real
  sysBP :: real
  diasBP :: real
  cholesterol :: real
  ecg :: real
  printedRiskScore :: int

definition assessHeartHealth ::
  "'g uniform_real_distribution \<Rightarrow> (nat \<Rightarrow> 'g) \<Rightarrow> FamilyHealth \<Rightarrow> Assessment option" where
  "assessHeartHealth U seeds family = do {
     score \<leftarrow> riskScore family;
     (hr, sbp, dbp, chol, e) \<leftarrow> simulateSensorReadings U seeds score;
     Some \<lparr> returned = finalRiskAssessment score,
            heartRate = hr, sysBP = sbp, diasBP = dbp, cholesterol = chol, ecg = e,
            printedRiskScore = score \<rparr>
   }"

subsection \<open>The scoring table of the specification\<close>

text \<open>
  The table of section 4.2 of the specification, written from its rows, for comparison
  with the code. A value that matches no row of a factor contributes 0 here, as the
  specification's error policy words it. The family history is the fixed list of four
  flags of the specification's data model.
\<close>

definition table_age :: "int \<Rightarrow> int" where
  "table_age a = (if a \<in> {1, 2} then 1 else if a \<in> {3, 4} then 2 else if a \<in> {5, 6} then 3 else 0)"

definition table_sex_age :: "bool \<Rightarrow> int \<Rightarrow> int" where
  "table_sex_age male a =
     (if \<not> male \<and> a \<le> 3 then 1 else if \<not> male \<and> a > 3 then 3
      else if male \<and> a \<le> 3 then 2 else if male \<and> a > 3 then 3 else 0)"

definition table_sleep :: "int \<Rightarrow> int" where
  "table_sleep c = (if c \<in> {1, 5} then 3 else if c = 2 then 2 else if c \<in> {3, 4} then 1 else 0)"

definition table_exercise :: "int \<Rightarrow> int" where
  "table_exercise f = (if f = 1 then 3 else if f = 2 then 2 else if f \<in> {3, 4} then 1 else 0)"

definition table_family :: "bool list \<Rightarrow> int" where
  "table_family d =
     (if d ! 0 then 2 else 0) + (if d ! 1 then 1 else 0) + (if d ! 2 then 2 else 0) + (if d ! 3 then 2 else 0)"

definition table_diet :: "int \<Rightarrow> int" where
  "table_diet t = (if t = 4 then 3 else if t \<in> {1, 2, 3, 6} then 1 else if t = 5 then 2 else 0)"

definition table_smoking :: "bool \<Rightarrow> int" where
  "table_smoking s = (if s then 3 else 1)"

definition table_score :: "FamilyHealth \<Rightarrow> int" where
  "table_score p =
     table_age (ageGroup p) + table_sex_age (gender p) (ageGroup p) + table_sleep (sleepHours p)
   + table_exercise (exerciseFrequency p) + table_family (familyDiseasesHistory p)
   + table_diet (dietType p) + table_smoking (isSmoker p)"

text \<open>The documented domains of the ordinal fields; the history has its four entries.\<close>

definition in_documented_domain :: "FamilyHealth \<Rightarrow> bool" where
  "in_documented_domain p =
     (ageGroup p \<in> {1..6} \<and> sleepHours p \<in> {1..5} \<and> exerciseFrequency p \<in> {1..4}
      \<and> dietType p \<in> {1..6} \<and> length (familyDiseasesHistory p) = 4)"

subsection \<open>Four questionnaires\<close>

text \<open>
  The high-risk and the low-risk scenario of the specification, a questionnaire of
  moderate risk, and one whose four ordinal answers are all outside their domains.
\<close>

definition highRiskScenario :: FamilyHealth where
  "highRiskScenario = (FamilyHealth_ctor 6 True 1 1 4 True)\<lparr>familyDiseasesHistory := [True, True, True, True]\<rparr>"

definition lowRiskScenario :: FamilyHealth where
  "lowRiskScenario = FamilyHealth_ctor 1 False 3 3 6 False"

definition moderateRiskScenario :: FamilyHealth where
  "moderateRiskScenario = FamilyHealth_ctor 3 True 2 2 5 False"

definition outOfDomainScenario :: FamilyHealth where
  "outOfDomainScenario = FamilyHealth_ctor 7 True 0 0 0 True"

section \<open>Basic facts\<close>

lemma ctor_history:
  "familyDiseasesHistory (FamilyHealth_ctor ag g sh ef dt sm) = [False, False, False, False]"
  by (simp add: FamilyHealth_ctor_def numeral_eq_Suc)

lemma ctor_fields:
  "ageGroup (FamilyHealth_ctor ag g sh ef dt sm) = ag"
  "gender (FamilyHealth_ctor ag g sh ef dt sm) = g"
  "sleepHours (FamilyHealth_ctor ag g sh ef dt sm) = sh"
  "exerciseFrequency (FamilyHealth_ctor ag g sh ef dt sm) = ef"
  "dietType (FamilyHealth_ctor ag g sh ef dt sm) = dt"
  "isSmoker (FamilyHealth_ctor ag g sh ef dt sm) = sm"
  by (simp_all add: FamilyHealth_ctor_def)

lemma hasFamilyDisease_total:
  "hasFamilyDisease this i =
     Some (0 \<le> i \<and> i < int (length (familyDiseasesHistory this)) \<and> familyDiseasesHistory this ! nat i)"
  by (simp add: hasFamilyDisease_def getFamilyHistoryCount_def vector_at_def)

lemma familyDiseaseScore_total:
  "familyDiseaseScore family =
     Some ((if hasFamilyDisease family 0 = Some True then 2 else 0)
         + (if hasFamilyDisease family 1 = Some True then 1 else 0)
         + (if hasFamilyDisease family 2 = Some True then 2 else 0)
         + (if hasFamilyDisease family 3 = Some True then 2 else 0))"
  by (simp add: familyDiseaseScore_def hasFamilyDisease_total)

lemma familyDiseaseScore_bounds:
  "\<exists>fd. familyDiseaseScore family = Some fd \<and> 0 \<le> fd \<and> fd \<le> 7"
  by (simp add: familyDiseaseScore_total)

lemma familyDiseaseScore_table:
  assumes "length (familyDiseasesHistory family) = 4"
  shows "familyDiseaseScore family = Some (table_family (familyDiseasesHistory family))"
  using assms by (simp add: familyDiseaseScore_total hasFamilyDisease_total table_family_def)

lemma ageScore_table: "ageGroup p \<in> {1..6} \<Longrightarrow> ageScore p = table_age (ageGroup p)"
  by (auto simp: ageScore_def table_age_def getAgeGroup_def)

lemma genderScore_table: "genderScore p = table_sex_age (gender p) (ageGroup p)"
  by (simp add: genderScore_def table_sex_age_def getAgeGroup_def getGender_def)

lemma sleepScore_table: "sleepHours p \<in> {1..5} \<Longrightarrow> sleepScore p = table_sleep (sleepHours p)"
  by (auto simp: sleepScore_def table_sleep_def getSleepHours_def)

lemma exerciseScore_table:
  "exerciseFrequency p \<in> {1..4} \<Longrightarrow> exerciseScore p = table_exercise (exerciseFrequency p)"
  by (auto simp: exerciseScore_def table_exercise_def getExerciseFrequency_def)

lemma dietScore_table: "dietScore p = table_diet (dietType p)"
  by (simp add: dietScore_def table_diet_def getDietType_def)

lemma smokingScore_table: "smokingScore p = table_smoking (isSmoker p)"
  by (simp add: smokingScore_def table_smoking_def getIsSmoker_def)

lemma riskScore_table:
  assumes "in_documented_domain p"
  shows "riskScore p = Some (table_score p)"
  using assms
  by (simp add: in_documented_domain_def riskScore_def table_score_def familyDiseaseScore_table
      ageScore_table genderScore_table sleepScore_table exerciseScore_table dietScore_table
      smokingScore_table)

lemma assess_prints_score:
  "map_option printedRiskScore (assessHeartHealth U seeds p) \<in> {None, riskScore p}"
  by (auto simp: assessHeartHealth_def split: Option.bind_splits)

lemma riskScore_flags_frame:
  assumes "length h = 4"
  shows "riskScore (p\<lparr>familyDiseasesHistory := h\<rparr>) =
     Some (ageScore p + genderScore p + sleepScore p + exerciseScore p
           + table_family h + dietScore p + smokingScore p)"
  using assms
  by (simp add: riskScore_def familyDiseaseScore_table ageScore_def genderScore_def sleepScore_def
      exerciseScore_def dietScore_def smokingScore_def getAgeGroup_def getGender_def
      getSleepHours_def getExerciseFrequency_def getDietType_def getIsSmoker_def)

subsection \<open>The distribution and the readings\<close>

lemma draw_contract:
  assumes "sampler_contract U" and "lo \<le> hi"
  shows "\<exists>x. draw U g lo hi = Some x \<and> lo \<le> x \<and> x \<le> hi"
proof -
  from assms obtain x g' where "U lo hi g = Some (x, g')" "lo \<le> x" "x \<le> hi"
    unfolding sampler_contract_def by blast
  then show ?thesis
    by (simp add: draw_def generate_def RandomNumberGenerator_ctor_def)
qed

lemma midpoint_contract: "sampler_contract midpoint_distribution"
  unfolding sampler_contract_def
proof (intro allI impI)
  fix a b :: real and g :: nat
  assume "a \<le> b"
  then have "midpoint_distribution a b g = Some ((a + b) / 2, Suc g)
      \<and> a \<le> (a + b) / 2 \<and> (a + b) / 2 \<le> b"
    by (simp add: midpoint_distribution_def)
  then show "\<exists>x g'. midpoint_distribution a b g = Some (x, g') \<and> a \<le> x \<and> x \<le> b"
    by blast
qed

lemma simulate_low:
  assumes "sampler_contract U" and "score < 10"
  shows "\<exists>hr sbp dbp chol e. simulateSensorReadings U seeds score = Some (hr, sbp, dbp, chol, e)
      \<and> 60 \<le> hr \<and> hr \<le> 80 \<and> 110 \<le> sbp \<and> sbp \<le> 120 \<and> 70 \<le> dbp \<and> dbp \<le> 80
      \<and> 150 \<le> chol \<and> chol \<le> 200 \<and> 0.05 \<le> e \<and> e \<le> 0.15"
proof -
  obtain hr where hr: "draw U (seeds 0) 60 80 = Some hr" "60 \<le> hr" "hr \<le> 80"
    using draw_contract [OF assms(1), of 60 80 "seeds 0"] by auto
  obtain sbp where sbp: "draw U (seeds 1) 110 120 = Some sbp" "110 \<le> sbp" "sbp \<le> 120"
    using draw_contract [OF assms(1), of 110 120 "seeds 1"] by auto
  obtain dbp where dbp: "draw U (seeds 2) 70 80 = Some dbp" "70 \<le> dbp" "dbp \<le> 80"
    using draw_contract [OF assms(1), of 70 80 "seeds 2"] by auto
  obtain chol where chol: "draw U (seeds 3) 150 200 = Some chol" "150 \<le> chol" "chol \<le> 200"
    using draw_contract [OF assms(1), of 150 200 "seeds 3"] by auto
  obtain e where e: "draw U (seeds 4) 0.05 0.15 = Some e" "0.05 \<le> e" "e \<le> 0.15"
    using draw_contract [OF assms(1), of "0.05" "0.15" "seeds 4"] by auto
  have "simulateSensorReadings U seeds score = Some (hr, sbp, dbp, chol, e)"
    using assms(2) hr(1) sbp(1) dbp(1) chol(1) e(1) by (simp add: simulateSensorReadings_def)
  with hr sbp dbp chol e show ?thesis by blast
qed

lemma simulate_moderate:
  assumes "sampler_contract U" and "10 \<le> score" and "score < 18"
  shows "\<exists>hr sbp dbp chol e. simulateSensorReadings U seeds score = Some (hr, sbp, dbp, chol, e)
      \<and> 80 \<le> hr \<and> hr \<le> 95 \<and> 120 \<le> sbp \<and> sbp \<le> 135 \<and> 80 \<le> dbp \<and> dbp \<le> 90
      \<and> 200 \<le> chol \<and> chol \<le> 240 \<and> 0.02 \<le> e \<and> e \<le> 0.18"
proof -
  obtain hr where hr: "draw U (seeds 0) 80 95 = Some hr" "80 \<le> hr" "hr \<le> 95"
    using draw_contract [OF assms(1), of 80 95 "seeds 0"] by auto
  obtain sbp where sbp: "draw U (seeds 1) 120 135 = Some sbp" "120 \<le> sbp" "sbp \<le> 135"
    using draw_contract [OF assms(1), of 120 135 "seeds 1"] by auto
  obtain dbp where dbp: "draw U (seeds 2) 80 90 = Some dbp" "80 \<le> dbp" "dbp \<le> 90"
    using draw_contract [OF assms(1), of 80 90 "seeds 2"] by auto
  obtain chol where chol: "draw U (seeds 3) 200 240 = Some chol" "200 \<le> chol" "chol \<le> 240"
    using draw_contract [OF assms(1), of 200 240 "seeds 3"] by auto
  obtain e where e: "draw U (seeds 4) 0.02 0.18 = Some e" "0.02 \<le> e" "e \<le> 0.18"
    using draw_contract [OF assms(1), of "0.02" "0.18" "seeds 4"] by auto
  have "simulateSensorReadings U seeds score = Some (hr, sbp, dbp, chol, e)"
    using assms(2,3) hr(1) sbp(1) dbp(1) chol(1) e(1) by (simp add: simulateSensorReadings_def)
  with hr sbp dbp chol e show ?thesis by blast
qed

lemma simulate_high:
  assumes "sampler_contract U" and "18 \<le> score"
  shows "\<exists>hr sbp dbp chol e. simulateSensorReadings U seeds score = Some (hr, sbp, dbp, chol, e)
      \<and> 95 \<le> hr \<and> hr \<le> 120 \<and> 135 \<le> sbp \<and> sbp \<le> 160 \<and> 90 \<le> dbp \<and> dbp \<le> 110
      \<and> 240 \<le> chol \<and> chol \<le> 300 \<and> - 0.1 \<le> e \<and> e \<le> 0.3"
proof -
  obtain hr where hr: "draw U (seeds 0) 95 120 = Some hr" "95 \<le> hr" "hr \<le> 120"
    using draw_contract [OF assms(1), of 95 120 "seeds 0"] by auto
  obtain sbp where sbp: "draw U (seeds 1) 135 160 = Some sbp" "135 \<le> sbp" "sbp \<le> 160"
    using draw_contract [OF assms(1), of 135 160 "seeds 1"] by auto
  obtain dbp where dbp: "draw U (seeds 2) 90 110 = Some dbp" "90 \<le> dbp" "dbp \<le> 110"
    using draw_contract [OF assms(1), of 90 110 "seeds 2"] by auto
  obtain chol where chol: "draw U (seeds 3) 240 300 = Some chol" "240 \<le> chol" "chol \<le> 300"
    using draw_contract [OF assms(1), of 240 300 "seeds 3"] by auto
  obtain e where e: "draw U (seeds 4) (- 0.1) 0.3 = Some e" "- 0.1 \<le> e" "e \<le> 0.3"
    using draw_contract [OF assms(1), of "- 0.1" "0.3" "seeds 4"] by auto
  have "simulateSensorReadings U seeds score = Some (hr, sbp, dbp, chol, e)"
    using assms(2) hr(1) sbp(1) dbp(1) chol(1) e(1) by (simp add: simulateSensorReadings_def)
  with hr sbp dbp chol e show ?thesis by blast
qed

lemma riskScore_total: "\<exists>r. riskScore family = Some r"
  by (simp add: riskScore_def familyDiseaseScore_total)

lemma assess_unfold:
  assumes "riskScore family = Some r"
    and "simulateSensorReadings U seeds r = Some (hr, sbp, dbp, chol, e)"
  shows "assessHeartHealth U seeds family =
     Some \<lparr> returned = finalRiskAssessment r, heartRate = hr, sysBP = sbp, diasBP = dbp,
            cholesterol = chol, ecg = e, printedRiskScore = r \<rparr>"
  using assms by (simp add: assessHeartHealth_def)

lemma ctor_score:
  "riskScore (FamilyHealth_ctor ag g sh ef dt sm) =
     Some (ageScore (FamilyHealth_ctor ag g sh ef dt sm) + genderScore (FamilyHealth_ctor ag g sh ef dt sm)
         + sleepScore (FamilyHealth_ctor ag g sh ef dt sm) + exerciseScore (FamilyHealth_ctor ag g sh ef dt sm)
         + dietScore (FamilyHealth_ctor ag g sh ef dt sm) + smokingScore (FamilyHealth_ctor ag g sh ef dt sm))"
  by (simp add: riskScore_def familyDiseaseScore_total hasFamilyDisease_total ctor_history)

lemma lowRiskScenario_score: "riskScore lowRiskScenario = Some 6"
  by (simp add: lowRiskScenario_def ctor_score ageScore_def genderScore_def sleepScore_def
      exerciseScore_def dietScore_def smokingScore_def getAgeGroup_def getGender_def
      getSleepHours_def getExerciseFrequency_def getDietType_def getIsSmoker_def ctor_fields)

lemma moderateRiskScenario_score: "riskScore moderateRiskScenario = Some 11"
  by (simp add: moderateRiskScenario_def ctor_score ageScore_def genderScore_def sleepScore_def
      exerciseScore_def dietScore_def smokingScore_def getAgeGroup_def getGender_def
      getSleepHours_def getExerciseFrequency_def getDietType_def getIsSmoker_def ctor_fields)

lemma highRiskScenario_score: "riskScore highRiskScenario = Some 25"
  by (simp add: highRiskScenario_def riskScore_flags_frame table_family_def ageScore_def
      genderScore_def sleepScore_def exerciseScore_def dietScore_def smokingScore_def
      getAgeGroup_def getGender_def getSleepHours_def getExerciseFrequency_def getDietType_def
      getIsSmoker_def ctor_fields)

lemma simulate_total:
  assumes "sampler_contract U"
  shows "\<exists>t. simulateSensorReadings U seeds score = Some t"
proof -
  consider (low) "score < 10" | (moderate) "10 \<le> score" "score < 18" | (high) "18 \<le> score"
    by linarith
  then show ?thesis
  proof cases
    case low
    then show ?thesis using simulate_low [OF assms, of score seeds] by blast
  next
    case moderate
    then show ?thesis using simulate_moderate [OF assms, of score seeds] by blast
  next
    case high
    then show ?thesis using simulate_high [OF assms, of score seeds] by blast
  qed
qed

lemma assess_returns:
  assumes "sampler_contract U"
  shows "\<exists>r res. riskScore family = Some r \<and> assessHeartHealth U seeds family = Some res
           \<and> returned res = finalRiskAssessment r \<and> printedRiskScore res = r"
proof -
  obtain r where r: "riskScore family = Some r"
    using riskScore_total by blast
  obtain hr sbp dbp chol e where s: "simulateSensorReadings U seeds r = Some (hr, sbp, dbp, chol, e)"
    using simulate_total [OF assms, of seeds r] by (metis prod_cases5)
  show ?thesis
    using r by (simp add: assess_unfold [OF r s])
qed

lemma assess_returned:
  "map_option returned (assessHeartHealth U seeds family) \<in>
     {None, map_option finalRiskAssessment (riskScore family)}"
  by (auto simp: assessHeartHealth_def split: Option.bind_splits)

lemma finalRiskAssessment_cases:
  "finalRiskAssessment r =
     (if r < 10 then ''Low risk of heart disease. You are healthy!''
      else if r < 18 then ''Moderate risk of heart disease.''
      else ''High risk of heart disease.'')"
  by (simp add: finalRiskAssessment_def)

subsection \<open>The invariant and the setters\<close>

lemma inv_ctor: "FamilyHealth_inv (FamilyHealth_ctor ag g sh ef dt sm)"
  by (simp add: FamilyHealth_inv_def ctor_history)

lemma inv_setters:
  "FamilyHealth_inv this \<Longrightarrow> FamilyHealth_inv (setAgeGroup this i)"
  "FamilyHealth_inv this \<Longrightarrow> FamilyHealth_inv (setGender this b)"
  "FamilyHealth_inv this \<Longrightarrow> FamilyHealth_inv (setSleepHours this i)"
  "FamilyHealth_inv this \<Longrightarrow> FamilyHealth_inv (setExerciseFrequency this i)"
  "FamilyHealth_inv this \<Longrightarrow> FamilyHealth_inv (setDietType this i)"
  "FamilyHealth_inv this \<Longrightarrow> FamilyHealth_inv (setIsSmoker this b)"
  by (simp_all add: FamilyHealth_inv_def setAgeGroup_def setGender_def setSleepHours_def
      setExerciseFrequency_def setDietType_def setIsSmoker_def)

lemma setFamilyDiseaseHistory_total:
  "setFamilyDiseaseHistory this index v =
     Some (if 0 \<le> index \<and> index < int (length (familyDiseasesHistory this))
           then this\<lparr>familyDiseasesHistory := (familyDiseasesHistory this)[nat index := v]\<rparr>
           else this)"
  by (simp add: setFamilyDiseaseHistory_def vector_assign_def)

lemma inv_setFamilyDiseaseHistory:
  "FamilyHealth_inv this \<Longrightarrow> \<exists>this'. setFamilyDiseaseHistory this index v = Some this' \<and> FamilyHealth_inv this'"
  by (simp add: setFamilyDiseaseHistory_total FamilyHealth_inv_def)

lemma inv_highRiskScenario: "FamilyHealth_inv highRiskScenario"
  by (simp add: FamilyHealth_inv_def highRiskScenario_def)

lemma hasFamilyDisease_update:
  assumes "0 \<le> index" and "index < int (length (familyDiseasesHistory this))"
  shows "hasFamilyDisease (this\<lparr>familyDiseasesHistory := (familyDiseasesHistory this)[nat index := v]\<rparr>) j
         = (if j = index then Some v else hasFamilyDisease this j)"
  using assms by (auto simp: hasFamilyDisease_total nth_list_update)

lemma affine_reversed:
  fixes lo hi u :: real
  assumes "hi < lo" and "0 \<le> u" and "u \<le> 1"
  shows "hi \<le> (hi - lo) * u + lo \<and> (hi - lo) * u + lo \<le> lo"
proof
  have "0 \<le> (lo - hi) * (1 - u)"
    using assms by (intro mult_nonneg_nonneg) simp_all
  then show "hi \<le> (hi - lo) * u + lo"
    by (simp add: algebra_simps)
next
  have "0 \<le> (lo - hi) * u"
    using assms by (intro mult_nonneg_nonneg) simp_all
  then show "(hi - lo) * u + lo \<le> lo"
    by (simp add: algebra_simps)
qed

section \<open>The claims\<close>

text \<open>
  C1. For every profile whose fields lie in their documented domains, the risk score is
  the sum of the contributions of the scoring table; the score written by an assessment,
  with any distribution and any seeds, is that same number whenever the call returns;
  and the profile with all four family-disease flags set scores exactly 7 more than the
  same profile with all four cleared.
\<close>

theorem score_is_table_sum:
  assumes "in_documented_domain p"
  shows "riskScore p = Some (table_score p)
       \<and> map_option printedRiskScore (assessHeartHealth U seeds p) \<in> {None, Some (table_score p)}
       \<and> (\<exists>s. riskScore (p\<lparr>familyDiseasesHistory := [False, False, False, False]\<rparr>) = Some s
              \<and> riskScore (p\<lparr>familyDiseasesHistory := [True, True, True, True]\<rparr>) = Some (s + 7))"
proof -
  have score: "riskScore p = Some (table_score p)"
    using assms by (rule riskScore_table)
  have printed: "map_option printedRiskScore (assessHeartHealth U seeds p) \<in> {None, Some (table_score p)}"
    using assess_prints_score [of U seeds p] score by simp
  have flags: "\<exists>s. riskScore (p\<lparr>familyDiseasesHistory := [False, False, False, False]\<rparr>) = Some s
              \<and> riskScore (p\<lparr>familyDiseasesHistory := [True, True, True, True]\<rparr>) = Some (s + 7)"
    by (simp add: riskScore_flags_frame table_family_def)
  from score printed flags show ?thesis by blast
qed

text \<open>The questionnaire of a young non-smoking woman with a balanced diet: score 6.\<close>

theorem score_is_table_sum_witness:
  "in_documented_domain (FamilyHealth_ctor 1 False 3 3 6 False)
   \<and> riskScore (FamilyHealth_ctor 1 False 3 3 6 False) = Some 6
   \<and> table_score (FamilyHealth_ctor 1 False 3 3 6 False) = 6"
proof -
  have dom: "in_documented_domain (FamilyHealth_ctor 1 False 3 3 6 False)"
    by (simp add: in_documented_domain_def ctor_fields ctor_history)
  have tab: "table_score (FamilyHealth_ctor 1 False 3 3 6 False) = 6"
    by (simp add: table_score_def table_age_def table_sex_age_def table_sleep_def
        table_exercise_def table_family_def table_diet_def table_smoking_def
        ctor_fields ctor_history)
  from score_is_table_sum [OF dom, of midpoint_distribution "\<lambda>i. 0"]
  have "riskScore (FamilyHealth_ctor 1 False 3 3 6 False)
        = Some (table_score (FamilyHealth_ctor 1 False 3 3 6 False))"
    by blast
  with dom tab show ?thesis by simp
qed

text \<open>
  C2. The returned message is the Low one exactly when the score is below 10, the
  Moderate one exactly when it is at least 10 and below 18, and the High one exactly
  when it is at least 18; 9 is Low, 10 and 17 are Moderate, 18 is High.
\<close>

theorem tier_thresholds:
  "(finalRiskAssessment score = ''Low risk of heart disease. You are healthy!'') = (score < 10)
   \<and> (finalRiskAssessment score = ''Moderate risk of heart disease.'') = (10 \<le> score \<and> score < 18)
   \<and> (finalRiskAssessment score = ''High risk of heart disease.'') = (18 \<le> score)
   \<and> finalRiskAssessment 9 = ''Low risk of heart disease. You are healthy!''
   \<and> finalRiskAssessment 10 = ''Moderate risk of heart disease.''
   \<and> finalRiskAssessment 17 = ''Moderate risk of heart disease.''
   \<and> finalRiskAssessment 18 = ''High risk of heart disease.''"
  by (simp add: finalRiskAssessment_def)

text \<open>
  C3. A dietType outside 1..6 matches no rule and adds 0. An ageGroup, a sleep category
  or an exercise frequency outside its domain is taken by the final \<open>else\<close> of its
  block: it adds 3, 1 and 1, and the sex and age block still applies its test
  \<open>ageGroup \<le> 3\<close>. The score is computed for every profile, and with a distribution
  that meets its contract the assessment returns.
\<close>

theorem out_of_domain_contributions:
  "(dietType p \<notin> {1..6} \<longrightarrow> dietScore p = 0)
   \<and> (ageGroup p \<notin> {1..6} \<longrightarrow>
         ageScore p = 3 \<and> genderScore p = (if 6 < ageGroup p then 3 else if gender p then 2 else 1))
   \<and> (sleepHours p \<notin> {1..5} \<longrightarrow> sleepScore p = 1)
   \<and> (exerciseFrequency p \<notin> {1..4} \<longrightarrow> exerciseScore p = 1)
   \<and> (\<exists>r. riskScore p = Some r)
   \<and> (sampler_contract U \<longrightarrow> (\<exists>res. assessHeartHealth U seeds p = Some res))"
proof -
  have diet: "dietType p \<notin> {1..6} \<longrightarrow> dietScore p = 0"
    by (auto simp: dietScore_def getDietType_def)
  have age: "ageGroup p \<notin> {1..6} \<longrightarrow>
         ageScore p = 3 \<and> genderScore p = (if 6 < ageGroup p then 3 else if gender p then 2 else 1)"
    by (auto simp: ageScore_def genderScore_def getAgeGroup_def getGender_def)
  have sleep: "sleepHours p \<notin> {1..5} \<longrightarrow> sleepScore p = 1"
    by (auto simp: sleepScore_def getSleepHours_def)
  have exercise: "exerciseFrequency p \<notin> {1..4} \<longrightarrow> exerciseScore p = 1"
    by (auto simp: exerciseScore_def getExerciseFrequency_def)
  have returns: "sampler_contract U \<longrightarrow> (\<exists>res. assessHeartHealth U seeds p = Some res)"
    using assess_returns [of U p seeds] by blast
  from diet age sleep exercise riskScore_total [of p] returns show ?thesis
    by blast
qed

text \<open>
  The four ordinal answers 7, 0, 0, 0: each premise holds, each factor is as stated.
\<close>

theorem out_of_domain_contributions_witness:
  "dietType outOfDomainScenario \<notin> {1..6} \<and> dietScore outOfDomainScenario = 0
   \<and> ageGroup outOfDomainScenario \<notin> {1..6} \<and> ageScore outOfDomainScenario = 3
   \<and> genderScore outOfDomainScenario = 3
   \<and> sleepHours outOfDomainScenario \<notin> {1..5} \<and> sleepScore outOfDomainScenario = 1
   \<and> exerciseFrequency outOfDomainScenario \<notin> {1..4} \<and> exerciseScore outOfDomainScenario = 1
   \<and> sampler_contract midpoint_distribution
   \<and> (\<exists>res. assessHeartHealth midpoint_distribution (\<lambda>i. 0) outOfDomainScenario = Some res)"
proof -
  have dom: "dietType outOfDomainScenario \<notin> {1..6}" "ageGroup outOfDomainScenario \<notin> {1..6}"
    "sleepHours outOfDomainScenario \<notin> {1..5}" "exerciseFrequency outOfDomainScenario \<notin> {1..4}"
    "6 < ageGroup outOfDomainScenario"
    by (simp_all add: outOfDomainScenario_def ctor_fields)
  from out_of_domain_contributions [of outOfDomainScenario midpoint_distribution "\<lambda>i. 0"]
    dom midpoint_contract
  show ?thesis by simp
qed

text \<open>
  The same questionnaire refutes "an unmatched factor adds zero": exercise frequency 0
  adds 1, sleep category 0 adds 1, age group 7 adds 3 and 3 again with the sex.
\<close>

theorem unmatched_rule_counterexample:
  "exerciseFrequency outOfDomainScenario \<notin> {1..4} \<and> exerciseScore outOfDomainScenario = 1
   \<and> sleepHours outOfDomainScenario \<notin> {1..5} \<and> sleepScore outOfDomainScenario = 1
   \<and> ageGroup outOfDomainScenario \<notin> {1..6} \<and> ageScore outOfDomainScenario = 3
   \<and> genderScore outOfDomainScenario = 3
   \<and> riskScore outOfDomainScenario = Some 11"
  by (simp add: outOfDomainScenario_def ctor_fields ctor_history exerciseScore_def sleepScore_def
      ageScore_def genderScore_def dietScore_def smokingScore_def riskScore_def
      familyDiseaseScore_total hasFamilyDisease_total getGender_def getDietType_def getIsSmoker_def
      getExerciseFrequency_def getSleepHours_def getAgeGroup_def)

text \<open>
  C4. For the profile with ageGroup 6, male, sleep 1, exercise 1, all four family
  flags, diet 4 and smoker, the score is 3+3+3+3+(2+1+2+2)+3+3 = 25, the message is the
  High one, and the ecg reading lies in [-0.1, 0.3] when the distribution meets its
  contract.
\<close>

theorem high_risk_scenario:
  assumes "sampler_contract U"
  shows "ageGroup highRiskScenario = 6 \<and> gender highRiskScenario \<and> sleepHours highRiskScenario = 1
     \<and> exerciseFrequency highRiskScenario = 1
     \<and> familyDiseasesHistory highRiskScenario = [True, True, True, True]
     \<and> dietType highRiskScenario = 4 \<and> isSmoker highRiskScenario
     \<and> riskScore highRiskScenario = Some 25
     \<and> (\<exists>res. assessHeartHealth U seeds highRiskScenario = Some res
            \<and> printedRiskScore res = 25 \<and> returned res = ''High risk of heart disease.''
            \<and> - 0.1 \<le> ecg res \<and> ecg res \<le> 0.3)"
proof -
  have fields: "ageGroup highRiskScenario = 6 \<and> gender highRiskScenario
     \<and> sleepHours highRiskScenario = 1 \<and> exerciseFrequency highRiskScenario = 1
     \<and> familyDiseasesHistory highRiskScenario = [True, True, True, True]
     \<and> dietType highRiskScenario = 4 \<and> isSmoker highRiskScenario"
    by (simp add: highRiskScenario_def ctor_fields)
  from simulate_high [OF assms, of 25 seeds] obtain hr sbp dbp chol e where
    s: "simulateSensorReadings U seeds 25 = Some (hr, sbp, dbp, chol, e)"
    and e: "- 0.1 \<le> e" "e \<le> 0.3"
    by auto
  have "\<exists>res. assessHeartHealth U seeds highRiskScenario = Some res
            \<and> printedRiskScore res = 25 \<and> returned res = ''High risk of heart disease.''
            \<and> - 0.1 \<le> ecg res \<and> ecg res \<le> 0.3"
    using e by (simp add: assess_unfold [OF highRiskScenario_score s] finalRiskAssessment_def)
  with fields highRiskScenario_score show ?thesis by blast
qed

theorem high_risk_scenario_witness:
  "sampler_contract midpoint_distribution
   \<and> riskScore highRiskScenario = Some 25
   \<and> (\<exists>res. assessHeartHealth midpoint_distribution (\<lambda>i. 0) highRiskScenario = Some res
          \<and> printedRiskScore res = 25 \<and> returned res = ''High risk of heart disease.''
          \<and> - 0.1 \<le> ecg res \<and> ecg res \<le> 0.3)"
  using high_risk_scenario [OF midpoint_contract, of "\<lambda>i. 0"] midpoint_contract by blast

text \<open>
  The score of that profile is 25, not 27.
\<close>

theorem high_risk_scenario_counterexample:
  "riskScore highRiskScenario = Some 25 \<and> riskScore highRiskScenario \<noteq> Some 27"
  by (simp add: highRiskScenario_score)

text \<open>
  C5. With a distribution that returns a value between its bounds whenever they are
  ordered, every assessment returns, and each of the five readings lies in the closed
  interval of the tier of the score: below 10, from 10 to 17, from 18 on.
\<close>

theorem readings_in_tier_ranges:
  assumes "sampler_contract U"
  shows "\<exists>r res. riskScore family = Some r \<and> assessHeartHealth U seeds family = Some res
     \<and> (if r < 10 then
          60 \<le> heartRate res \<and> heartRate res \<le> 80 \<and> 110 \<le> sysBP res \<and> sysBP res \<le> 120
          \<and> 70 \<le> diasBP res \<and> diasBP res \<le> 80 \<and> 150 \<le> cholesterol res \<and> cholesterol res \<le> 200
          \<and> 0.05 \<le> ecg res \<and> ecg res \<le> 0.15
        else if r < 18 then
          80 \<le> heartRate res \<and> heartRate res \<le> 95 \<and> 120 \<le> sysBP res \<and> sysBP res \<le> 135
          \<and> 80 \<le> diasBP res \<and> diasBP res \<le> 90 \<and> 200 \<le> cholesterol res \<and> cholesterol res \<le> 240
          \<and> 0.02 \<le> ecg res \<and> ecg res \<le> 0.18
        else
          95 \<le> heartRate res \<and> heartRate res \<le> 120 \<and> 135 \<le> sysBP res \<and> sysBP res \<le> 160
          \<and> 90 \<le> diasBP res \<and> diasBP res \<le> 110 \<and> 240 \<le> cholesterol res \<and> cholesterol res \<le> 300
          \<and> - 0.1 \<le> ecg res \<and> ecg res \<le> 0.3)"
proof -
  obtain r where r: "riskScore family = Some r"
    using riskScore_total by blast
  consider (low) "r < 10" | (moderate) "10 \<le> r" "r < 18" | (high) "18 \<le> r"
    by linarith
  then show ?thesis
  proof cases
    case low
    from simulate_low [OF assms low, of seeds] obtain hr sbp dbp chol e where
      s: "simulateSensorReadings U seeds r = Some (hr, sbp, dbp, chol, e)"
      and b: "60 \<le> hr" "hr \<le> 80" "110 \<le> sbp" "sbp \<le> 120" "70 \<le> dbp" "dbp \<le> 80"
        "150 \<le> chol" "chol \<le> 200" "0.05 \<le> e" "e \<le> 0.15"
      by blast
    show ?thesis
      using r low b by (simp add: assess_unfold [OF r s])
  next
    case moderate
    from simulate_moderate [OF assms moderate, of seeds] obtain hr sbp dbp chol e where
      s: "simulateSensorReadings U seeds r = Some (hr, sbp, dbp, chol, e)"
      and b: "80 \<le> hr" "hr \<le> 95" "120 \<le> sbp" "sbp \<le> 135" "80 \<le> dbp" "dbp \<le> 90"
        "200 \<le> chol" "chol \<le> 240" "0.02 \<le> e" "e \<le> 0.18"
      by blast
    show ?thesis
      using r moderate b by (simp add: assess_unfold [OF r s])
  next
    case high
    from simulate_high [OF assms high, of seeds] obtain hr sbp dbp chol e where
      s: "simulateSensorReadings U seeds r = Some (hr, sbp, dbp, chol, e)"
      and b: "95 \<le> hr" "hr \<le> 120" "135 \<le> sbp" "sbp \<le> 160" "90 \<le> dbp" "dbp \<le> 110"
        "240 \<le> chol" "chol \<le> 300" "- 0.1 \<le> e" "e \<le> 0.3"
      by blast
    show ?thesis
      using r high b by (simp add: assess_unfold [OF r s])
  qed
qed

text \<open>One questionnaire in each tier, with the midpoint distribution.\<close>

theorem readings_in_tier_ranges_witness:
  "sampler_contract midpoint_distribution
   \<and> riskScore lowRiskScenario = Some 6
   \<and> (\<exists>res. assessHeartHealth midpoint_distribution (\<lambda>i. 0) lowRiskScenario = Some res
          \<and> 60 \<le> heartRate res \<and> heartRate res \<le> 80 \<and> 110 \<le> sysBP res \<and> sysBP res \<le> 120
          \<and> 70 \<le> diasBP res \<and> diasBP res \<le> 80 \<and> 150 \<le> cholesterol res \<and> cholesterol res \<le> 200
          \<and> 0.05 \<le> ecg res \<and> ecg res \<le> 0.15)
   \<and> riskScore moderateRiskScenario = Some 11
   \<and> (\<exists>res. assessHeartHealth midpoint_distribution (\<lambda>i. 0) moderateRiskScenario = Some res
          \<and> 80 \<le> heartRate res \<and> heartRate res \<le> 95 \<and> 120 \<le> sysBP res \<and> sysBP res \<le> 135
          \<and> 80 \<le> diasBP res \<and> diasBP res \<le> 90 \<and> 200 \<le> cholesterol res \<and> cholesterol res \<le> 240
          \<and> 0.02 \<le> ecg res \<and> ecg res \<le> 0.18)
   \<and> riskScore highRiskScenario = Some 25
   \<and> (\<exists>res. assessHeartHealth midpoint_distribution (\<lambda>i. 0) highRiskScenario = Some res
          \<and> 95 \<le> heartRate res \<and> heartRate res \<le> 120 \<and> 135 \<le> sysBP res \<and> sysBP res \<le> 160
          \<and> 90 \<le> diasBP res \<and> diasBP res \<le> 110 \<and> 240 \<le> cholesterol res \<and> cholesterol res \<le> 300
          \<and> - 0.1 \<le> ecg res \<and> ecg res \<le> 0.3)"
proof -
  have low: "\<exists>res. assessHeartHealth midpoint_distribution (\<lambda>i. 0) lowRiskScenario = Some res
          \<and> 60 \<le> heartRate res \<and> heartRate res \<le> 80 \<and> 110 \<le> sysBP res \<and> sysBP res \<le> 120
          \<and> 70 \<le> diasBP res \<and> diasBP res \<le> 80 \<and> 150 \<le> cholesterol res \<and> cholesterol res \<le> 200
          \<and> 0.05 \<le> ecg res \<and> ecg res \<le> 0.15"
    using readings_in_tier_ranges [OF midpoint_contract, of lowRiskScenario "\<lambda>i. 0"]
    by (auto simp: lowRiskScenario_score)
  have moderate: "\<exists>res. assessHeartHealth midpoint_distribution (\<lambda>i. 0) moderateRiskScenario = Some res
          \<and> 80 \<le> heartRate res \<and> heartRate res \<le> 95 \<and> 120 \<le> sysBP res \<and> sysBP res \<le> 135
          \<and> 80 \<le> diasBP res \<and> diasBP res \<le> 90 \<and> 200 \<le> cholesterol res \<and> cholesterol res \<le> 240
          \<and> 0.02 \<le> ecg res \<and> ecg res \<le> 0.18"
    using readings_in_tier_ranges [OF midpoint_contract, of moderateRiskScenario "\<lambda>i. 0"]
    by (auto simp: moderateRiskScenario_score)
  have high: "\<exists>res. assessHeartHealth midpoint_distribution (\<lambda>i. 0) highRiskScenario = Some res
          \<and> 95 \<le> heartRate res \<and> heartRate res \<le> 120 \<and> 135 \<le> sysBP res \<and> sysBP res \<le> 160
          \<and> 90 \<le> diasBP res \<and> diasBP res \<le> 110 \<and> 240 \<le> cholesterol res \<and> cholesterol res \<le> 300
          \<and> - 0.1 \<le> ecg res \<and> ecg res \<le> 0.3"
    using readings_in_tier_ranges [OF midpoint_contract, of highRiskScenario "\<lambda>i. 0"]
    by (auto simp: highRiskScenario_score)
  from low moderate high midpoint_contract lowRiskScenario_score moderateRiskScenario_score
    highRiskScenario_score
  show ?thesis by blast
qed

text \<open>
  C6. When the distribution meets its contract the assessment returns one of the three
  literal messages, the one of the tier of the score; and with any distribution at all, a
  call that returns gives one of these three strings and nothing else.
\<close>

theorem message_literals:
  "(sampler_contract U \<longrightarrow>
      (\<exists>r res. riskScore family = Some r \<and> assessHeartHealth U seeds family = Some res
         \<and> returned res =
             (if r < 10 then ''Low risk of heart disease. You are healthy!''
              else if r < 18 then ''Moderate risk of heart disease.''
              else ''High risk of heart disease.'')))
   \<and> map_option returned (assessHeartHealth U seeds family) \<in>
       {None, Some ''Low risk of heart disease. You are healthy!'',
        Some ''Moderate risk of heart disease.'', Some ''High risk of heart disease.''}"
proof
  show "sampler_contract U \<longrightarrow>
      (\<exists>r res. riskScore family = Some r \<and> assessHeartHealth U seeds family = Some res
         \<and> returned res =
             (if r < 10 then ''Low risk of heart disease. You are healthy!''
              else if r < 18 then ''Moderate risk of heart disease.''
              else ''High risk of heart disease.''))"
    using assess_returns [of U family seeds] by (auto simp only: finalRiskAssessment_cases)
next
  obtain r where r: "riskScore family = Some r"
    using riskScore_total by blast
  have "finalRiskAssessment r \<in> {''Low risk of heart disease. You are healthy!'',
        ''Moderate risk of heart disease.'', ''High risk of heart disease.''}"
    by (simp add: finalRiskAssessment_def)
  then show "map_option returned (assessHeartHealth U seeds family) \<in>
       {None, Some ''Low risk of heart disease. You are healthy!'',
        Some ''Moderate risk of heart disease.'', Some ''High risk of heart disease.''}"
    using assess_returned [of U seeds family] r by auto
qed

theorem message_literals_witness:
  "sampler_contract midpoint_distribution
   \<and> (\<exists>res. assessHeartHealth midpoint_distribution (\<lambda>i. 0) highRiskScenario = Some res
          \<and> returned res = ''High risk of heart disease.'')"
  using message_literals [of midpoint_distribution highRiskScenario "\<lambda>i. 0"] midpoint_contract
  by (auto simp: highRiskScenario_score)

text \<open>
  C7. On an object with its four history entries, hasFamilyDisease returns false,
  and returns normally, for every index below 0 or from 4 on.
\<close>

theorem hasFamilyDisease_out_of_range:
  assumes "FamilyHealth_inv this" and "index < 0 \<or> 4 \<le> index"
  shows "hasFamilyDisease this index = Some False"
  using assms by (auto simp: hasFamilyDisease_total FamilyHealth_inv_def)

text \<open>
  Index 5 on the profile with all four flags set; index 3 reads the flag.
\<close>

theorem hasFamilyDisease_out_of_range_witness:
  "FamilyHealth_inv highRiskScenario \<and> ((5::int) < 0 \<or> 4 \<le> (5::int))
   \<and> hasFamilyDisease highRiskScenario 5 = Some False
   \<and> hasFamilyDisease highRiskScenario 3 = Some True"
proof -
  have idx: "(5::int) < 0 \<or> 4 \<le> (5::int)" by simp
  have "hasFamilyDisease highRiskScenario 3 = Some True"
    by (simp add: hasFamilyDisease_total highRiskScenario_def)
  with hasFamilyDisease_out_of_range [OF inv_highRiskScenario idx] inv_highRiskScenario idx
  show ?thesis by simp
qed

text \<open>
  C8. RandomNumberGenerator checks nothing: for bounds with max below min the
  constructor keeps them as given, unswapped, and generate returns the value of the
  underlying distribution for those bounds whenever the distribution returns one. With
  the affine distribution and a canonical draw in [0, 1] it returns a value between max
  and min.
\<close>

theorem generator_has_no_bounds_check:
  assumes "max_v < min_v"
  shows "dist_bounds (RandomNumberGenerator_ctor g min_v max_v) = (min_v, max_v)
     \<and> map_option fst (generate U (RandomNumberGenerator_ctor g min_v max_v))
         = map_option fst (U min_v max_v g)
     \<and> (0 \<le> u \<and> u \<le> 1 \<longrightarrow>
          (\<exists>x. map_option fst (generate affine_distribution (RandomNumberGenerator_ctor u min_v max_v)) = Some x
             \<and> max_v \<le> x \<and> x \<le> min_v))"
proof (intro conjI impI)
  show "dist_bounds (RandomNumberGenerator_ctor g min_v max_v) = (min_v, max_v)"
    by (simp add: RandomNumberGenerator_ctor_def)
next
  show "map_option fst (generate U (RandomNumberGenerator_ctor g min_v max_v))
         = map_option fst (U min_v max_v g)"
    by (cases "U min_v max_v g") (auto simp: generate_def RandomNumberGenerator_ctor_def)
next
  assume "0 \<le> u \<and> u \<le> 1"
  with assms have "max_v \<le> (max_v - min_v) * u + min_v \<and> (max_v - min_v) * u + min_v \<le> min_v"
    using affine_reversed [of max_v min_v u] by simp
  then show "\<exists>x. map_option fst (generate affine_distribution (RandomNumberGenerator_ctor u min_v max_v)) = Some x
             \<and> max_v \<le> x \<and> x \<le> min_v"
    by (simp add: generate_def RandomNumberGenerator_ctor_def affine_distribution_def)
qed

theorem generator_has_no_bounds_check_witness:
  "(1::real) < 5
   \<and> dist_bounds (RandomNumberGenerator_ctor (0::nat) 5 1) = (5, 1)
   \<and> map_option fst (generate midpoint_distribution (RandomNumberGenerator_ctor 0 5 1)) = Some 3
   \<and> (0 \<le> (1 / 2 :: real) \<and> (1 / 2 :: real) \<le> 1)
   \<and> (\<exists>x. map_option fst (generate affine_distribution (RandomNumberGenerator_ctor (1 / 2) 5 1)) = Some x
          \<and> 1 \<le> x \<and> x \<le> 5)"
proof -
  have lt: "(1::real) < 5" by simp
  from generator_has_no_bounds_check [OF lt, of "0::nat" midpoint_distribution "1 / 2"]
  show ?thesis by (simp add: midpoint_distribution_def)
qed

text \<open>
  Bounds 5 and 1 with the affine distribution at the canonical draw 1/2: the generator
  is built and generate returns 3.
\<close>

theorem no_fail_fast_counterexample:
  "(5::real) > 1
   \<and> generate affine_distribution (RandomNumberGenerator_ctor (1 / 2) 5 1)
       = Some (3, \<lparr>rng = 1 / 2, dist_bounds = (5, 1)\<rparr>)"
  by (simp add: generate_def RandomNumberGenerator_ctor_def affine_distribution_def)

text \<open>
  C9. For every profile, whatever its fields hold, the score is at least 5 and at most
  25: age, sex and age, sleep, exercise and smoking each add between 1 and 3, the family
  history between 0 and 7, the diet between 0 and 3.
\<close>

theorem riskScore_bounds:
  "\<exists>r fd. riskScore p = Some r \<and> 5 \<le> r \<and> r \<le> 25
      \<and> 1 \<le> ageScore p \<and> ageScore p \<le> 3
      \<and> 1 \<le> genderScore p \<and> genderScore p \<le> 3
      \<and> 1 \<le> sleepScore p \<and> sleepScore p \<le> 3
      \<and> 1 \<le> exerciseScore p \<and> exerciseScore p \<le> 3
      \<and> 1 \<le> smokingScore p \<and> smokingScore p \<le> 3
      \<and> familyDiseaseScore p = Some fd \<and> 0 \<le> fd \<and> fd \<le> 7
      \<and> 0 \<le> dietScore p \<and> dietScore p \<le> 3"
proof -
  obtain fd where fd: "familyDiseaseScore p = Some fd" "0 \<le> fd" "fd \<le> 7"
    using familyDiseaseScore_bounds by blast
  have a: "1 \<le> ageScore p \<and> ageScore p \<le> 3" by (simp add: ageScore_def)
  have g: "1 \<le> genderScore p \<and> genderScore p \<le> 3" by (simp add: genderScore_def)
  have s: "1 \<le> sleepScore p \<and> sleepScore p \<le> 3" by (simp add: sleepScore_def)
  have e: "1 \<le> exerciseScore p \<and> exerciseScore p \<le> 3" by (simp add: exerciseScore_def)
  have m: "1 \<le> smokingScore p \<and> smokingScore p \<le> 3" by (simp add: smokingScore_def)
  have d: "0 \<le> dietScore p \<and> dietScore p \<le> 3" by (simp add: dietScore_def Let_def)
  have r: "riskScore p = Some (ageScore p + genderScore p + sleepScore p + exerciseScore p
                                + fd + dietScore p + smokingScore p)"
    using fd(1) by (simp add: riskScore_def)
  have "5 \<le> ageScore p + genderScore p + sleepScore p + exerciseScore p + fd + dietScore p + smokingScore p"
    using a g s e m d fd(2) by linarith
  moreover have "ageScore p + genderScore p + sleepScore p + exerciseScore p + fd + dietScore p + smokingScore p \<le> 25"
    using a g s e m d fd(3) by linarith
  ultimately show ?thesis
    using r fd a g s e m d by simp
qed

text \<open>
  C10. On an object with its four history entries, setFamilyDiseaseHistory with an
  index below 0 or from 4 on returns the object unchanged; with an index from 0 to 3 it
  changes the history entry at that index and nothing else.
\<close>

theorem setFamilyDiseaseHistory_frame:
  assumes "FamilyHealth_inv this"
  shows "(index < 0 \<or> 4 \<le> index \<longrightarrow> setFamilyDiseaseHistory this index v = Some this)
     \<and> (0 \<le> index \<and> index < 4 \<longrightarrow>
          (\<exists>this'. setFamilyDiseaseHistory this index v = Some this'
             \<and> this' = this\<lparr>familyDiseasesHistory := (familyDiseasesHistory this)[nat index := v]\<rparr>
             \<and> ageGroup this' = ageGroup this \<and> gender this' = gender this
             \<and> sleepHours this' = sleepHours this
             \<and> exerciseFrequency this' = exerciseFrequency this
             \<and> dietType this' = dietType this \<and> isSmoker this' = isSmoker this
             \<and> familyDiseases this' = familyDiseases this
             \<and> length (familyDiseasesHistory this') = 4
             \<and> (\<forall>j. hasFamilyDisease this' j = (if j = index then Some v else hasFamilyDisease this j))))"
proof (intro conjI impI)
  assume "index < 0 \<or> 4 \<le> index"
  with assms show "setFamilyDiseaseHistory this index v = Some this"
    by (auto simp: setFamilyDiseaseHistory_total FamilyHealth_inv_def)
next
  assume idx: "0 \<le> index \<and> index < 4"
  with assms have len: "0 \<le> index" "index < int (length (familyDiseasesHistory this))"
    by (simp_all add: FamilyHealth_inv_def)
  have "setFamilyDiseaseHistory this index v =
      Some (this\<lparr>familyDiseasesHistory := (familyDiseasesHistory this)[nat index := v]\<rparr>)"
    using len by (simp add: setFamilyDiseaseHistory_total)
  moreover have "\<forall>j. hasFamilyDisease (this\<lparr>familyDiseasesHistory := (familyDiseasesHistory this)[nat index := v]\<rparr>) j
        = (if j = index then Some v else hasFamilyDisease this j)"
    using hasFamilyDisease_update [OF len] by blast
  ultimately show "\<exists>this'. setFamilyDiseaseHistory this index v = Some this'
             \<and> this' = this\<lparr>familyDiseasesHistory := (familyDiseasesHistory this)[nat index := v]\<rparr>
             \<and> ageGroup this' = ageGroup this \<and> gender this' = gender this
             \<and> sleepHours this' = sleepHours this
             \<and> exerciseFrequency this' = exerciseFrequency this
             \<and> dietType this' = dietType this \<and> isSmoker this' = isSmoker this
             \<and> familyDiseases this' = familyDiseases this
             \<and> length (familyDiseasesHistory this') = 4
             \<and> (\<forall>j. hasFamilyDisease this' j = (if j = index then Some v else hasFamilyDisease this j))"
    using assms by (simp add: FamilyHealth_inv_def)
qed

text \<open>
  Index 5 leaves the low-risk questionnaire as it is; index 2 sets its third flag.
\<close>

theorem setFamilyDiseaseHistory_frame_witness:
  "FamilyHealth_inv lowRiskScenario
   \<and> ((5::int) < 0 \<or> 4 \<le> (5::int))
   \<and> setFamilyDiseaseHistory lowRiskScenario 5 True = Some lowRiskScenario
   \<and> (0 \<le> (2::int) \<and> (2::int) < 4)
   \<and> setFamilyDiseaseHistory lowRiskScenario 2 True
       = Some (lowRiskScenario\<lparr>familyDiseasesHistory := [False, False, True, False]\<rparr>)"
proof -
  have inv: "FamilyHealth_inv lowRiskScenario"
    by (simp add: lowRiskScenario_def inv_ctor)
  have h: "familyDiseasesHistory lowRiskScenario = [False, False, False, False]"
    by (simp add: lowRiskScenario_def ctor_history)
  have "setFamilyDiseaseHistory lowRiskScenario 5 True = Some lowRiskScenario"
    using setFamilyDiseaseHistory_frame [OF inv, of 5 True] by simp
  moreover have "setFamilyDiseaseHistory lowRiskScenario 2 True
       = Some (lowRiskScenario\<lparr>familyDiseasesHistory := [False, False, True, False]\<rparr>)"
    using setFamilyDiseaseHistory_frame [OF inv, of 2 True] h
    by (simp add: numeral_eq_Suc)
  ultimately show ?thesis using inv by simp
qed

end
